theory Spec2Isabelle
  imports Complex_Main
begin

section \<open>DocBoxRX: the Decision Deck, the API helper and the triage core\<close>

text \<open>
  The repository holds the React frontend (\<^verbatim>\<open>App.tsx\<close>, \<^verbatim>\<open>components/GridView.tsx\<close>)
  and the project's technical documents. The FastAPI backend (\<^verbatim>\<open>app/main.py\<close>,
  \<^verbatim>\<open>app/services/grid.py\<close>) is described by those documents only.
\<close>

subsection \<open>Shared types\<close>

text \<open>\<^verbatim>\<open>type ZoneType = 'STAT' | 'TODAY' | 'THIS_WEEK' | 'LATER'\<close>\<close>

datatype ZoneType = STAT | TODAY | THIS_WEEK | LATER

subsection \<open>GridView.tsx: the Decision Deck\<close>

text \<open>
  The interfaces \<^verbatim>\<open>GridItem\<close>, \<^verbatim>\<open>GridZone\<close> and \<^verbatim>\<open>GridResponse\<close>. A field typed
  \<^verbatim>\<open>string | null\<close> or declared optional is an option; \<^verbatim>\<open>risk_score\<close> is a
  JavaScript number, taken here as a real; the two counts are integers.
\<close>

record GridItem =
  item_id :: string
  item_subject :: string
  item_snippet :: "string option"
  item_risk_score :: real
  item_lifecycle_state :: string
  item_deadline_at :: "string option"
  item_patient_name :: "string option"

record GridZone =
  zone :: ZoneType
  total_count :: int
  overdue_count :: int
  items :: "GridItem list"

record GridResponse =
  grid_owner :: "string option"
  zones :: "GridZone list"

text \<open>\<^verbatim>\<open>zoneConfig[zone].label\<close> of GridView.tsx.\<close>

fun zoneLabel :: "ZoneType \<Rightarrow> string" where
  "zoneLabel STAT = ''STAT''"
| "zoneLabel TODAY = ''TODAY''"
| "zoneLabel THIS_WEEK = ''THIS_WEEK''"
| "zoneLabel LATER = ''LATER''"

text \<open>\<^verbatim>\<open>const zones = grid?.zones || []\<close>: the state \<^verbatim>\<open>grid\<close> is null until a fetch
  has succeeded.\<close>

definition grid_zones :: "GridResponse option \<Rightarrow> GridZone list" where
  "grid_zones grid = (case grid of None \<Rightarrow> [] | Some g \<Rightarrow> zones g)"

text \<open>\<^verbatim>\<open>zones.find((z) => z.zone === zone)\<close>: the first entry of that zone, or undefined.\<close>

definition zoneData :: "GridZone list \<Rightarrow> ZoneType \<Rightarrow> GridZone option" where
  "zoneData zs z = List.find (\<lambda>d. zone d = z) zs"

text \<open>\<^verbatim>\<open>const items = zoneData?.items || []\<close>\<close>

definition zone_items :: "GridZone option \<Rightarrow> GridItem list" where
  "zone_items zd = (case zd of None \<Rightarrow> [] | Some d \<Rightarrow> items d)"

text \<open>\<^verbatim>\<open>const preview = zone === 'STAT' ? items.slice(0, 3) : items.slice(0, 8)\<close>;
  \<^verbatim>\<open>slice(0, n)\<close> keeps the first \<open>n\<close> elements, or all of a shorter array.\<close>

definition preview :: "ZoneType \<Rightarrow> GridItem list \<Rightarrow> GridItem list" where
  "preview z its = (if z = STAT then take 3 its else take 8 its)"

text \<open>
  What one card of the deck shows: its title, the count badge
  (\<^verbatim>\<open>zoneData?.total_count || 0\<close>; for a number \<open>n\<close>, \<^verbatim>\<open>n || 0\<close> is \<open>n\<close>), the
  overdue badge when it is rendered (\<^verbatim>\<open>zone === 'STAT' && ...\<close>), and either the
  paragraph "No items" or one button per preview item.
\<close>

datatype CardContent = NoItems | ItemButtons "GridItem list"

record ZoneCard =
  card_key :: ZoneType
  card_title :: string
  count_badge :: int
  overdue_badge :: "int option"
  card_content :: CardContent

definition count_or_zero :: "GridZone option \<Rightarrow> (GridZone \<Rightarrow> int) \<Rightarrow> int" where
  "count_or_zero zd field = (case zd of None \<Rightarrow> 0 | Some d \<Rightarrow> field d)"

definition render_zone :: "GridZone list \<Rightarrow> ZoneType \<Rightarrow> ZoneCard" where
  "render_zone zs z =
     (let zd = zoneData zs z;
          its = zone_items zd;
          pv = preview z its
      in \<lparr> card_key = z,
           card_title = zoneLabel z,
           count_badge = count_or_zero zd total_count,
           overdue_badge = (if z = STAT then Some (count_or_zero zd overdue_count) else None),
           card_content = (if length pv = 0 then NoItems else ItemButtons pv) \<rparr>)"

text \<open>\<^verbatim>\<open>(['STAT', 'TODAY', 'THIS_WEEK', 'LATER'] as ZoneType[]).map((zone) => ...)\<close>\<close>

definition GridView_cards :: "GridResponse option \<Rightarrow> ZoneCard list" where
  "GridView_cards grid = map (render_zone (grid_zones grid)) [STAT, TODAY, THIS_WEEK, LATER]"

subsection \<open>App.tsx: the message detail pane\<close>

text \<open>
  The interfaces \<^verbatim>\<open>Message\<close> and \<^verbatim>\<open>User\<close>. The four derived fields are declared
  \<^verbatim>\<open>string | null\<close> and optional.
\<close>

record Message =
  msg_id :: string
  sender :: string
  sender_domain :: string
  subject :: string
  snippet :: "string option"
  msg_zone :: ZoneType
  confidence :: real
  reason :: string
  jone5_message :: string
  received_at :: string
  classified_at :: string
  corrected :: bool
  summary :: "string option"
  recommended_action :: "string option"
  action_type :: "string option"
  draft_reply :: "string option"

record User =
  user_id :: string
  email :: string
  user_name :: string
  practice_name :: "string option"

text \<open>JavaScript's \<^verbatim>\<open>a || b\<close> on an optional string: \<^verbatim>\<open>null\<close>, \<^verbatim>\<open>undefined\<close> and the
  empty string are falsy.\<close>

definition truthy_string :: "string option \<Rightarrow> bool" where
  "truthy_string a = (case a of None \<Rightarrow> False | Some s \<Rightarrow> s \<noteq> [])"

definition or_else :: "string option \<Rightarrow> string \<Rightarrow> string" where
  "or_else a b = (case a of None \<Rightarrow> b | Some s \<Rightarrow> if s = [] then b else s)"

text \<open>\<^verbatim>\<open>selectedMessage.summary || selectedMessage.reason || 'jonE5 analyzed ...'\<close>\<close>

definition pane_summary :: "Message \<Rightarrow> string" where
  "pane_summary m =
     or_else (summary m)
       (or_else (Some (reason m))
          ''jonE5 analyzed this email and classified it based on sender patterns and content keywords.'')"

text \<open>\<^verbatim>\<open>selectedMessage.recommended_action || 'Review and respond as needed'\<close>\<close>

definition pane_recommended_action :: "Message \<Rightarrow> string" where
  "pane_recommended_action m = or_else (recommended_action m) ''Review and respond as needed''"

text \<open>\<^verbatim>\<open>selectedMessage.action_type && <Badge ...>{selectedMessage.action_type}</Badge>\<close>:
  the badge text, or nothing.\<close>

definition pane_action_type :: "Message \<Rightarrow> string option" where
  "pane_action_type m = (if truthy_string (action_type m) then action_type m else None)"

text \<open>
  The template literal of the draft reply; the same expression stands in the paragraph,
  in "Copy Reply" and in "Send Reply". \<open>CHR 0x22\<close> is the double quote and \<open>CHR 0x0A\<close>
  the line feed \<^verbatim>\<open>\n\<close>.
\<close>

definition draft_template :: "Message \<Rightarrow> User \<Rightarrow> string" where
  "draft_template m u =
     ''Thank you for your email regarding '' @ [CHR 0x22] @ subject m @ [CHR 0x22] @ ''.''
     @ [CHR 0x0A, CHR 0x0A]
     @ ''I have reviewed the information and will respond accordingly.''
     @ [CHR 0x0A, CHR 0x0A]
     @ ''Best regards,'' @ [CHR 0x0A] @ user_name u"

definition pane_draft_reply :: "Message \<Rightarrow> User \<Rightarrow> string" where
  "pane_draft_reply m u = or_else (draft_reply m) (draft_template m u)"

subsection \<open>App.tsx: apiCall\<close>

text \<open>
  JSON values as \<^verbatim>\<open>response.json()\<close> yields them (numbers taken as integers), and what a
  rejected promise carries: an error's \<^verbatim>\<open>name\<close> and its message. A message is a literal
  text, JavaScript's \<^verbatim>\<open>String(v)\<close> of a value that is not a string (left
  uninterpreted), or a text the engine chooses.
\<close>

datatype Json = JNull | JBool bool | JNum int | JStr string | JArr "Json list"
  | JObj "(string \<times> Json) list"

datatype ErrorMessage = Text string | StringOf Json | EngineText

datatype Thrown = Thrown (thrown_name: string) (thrown_message: ErrorMessage)

text \<open>
  A response, as \<^verbatim>\<open>fetch\<close> resolves with it once the headers are there:
  \<^verbatim>\<open>response.ok\<close> is true exactly for a status from 200 to 299. The body follows:
  \<open>body_delay\<close> is the number of milliseconds, counted from the arrival of the response,
  after which \<^verbatim>\<open>response.json()\<close> settles (\<open>None\<close>: the body never ends and the promise
  stays pending); \<open>body\<close> is what it then yields, \<open>None\<close> when it rejects (no valid JSON).
\<close>

record Response =
  status :: nat
  body_delay :: "nat option"
  body :: "Json option"

definition response_ok :: "Response \<Rightarrow> bool" where
  "response_ok r = (200 \<le> status r \<and> status r \<le> 299)"

datatype FetchResult = Rejected Thrown | Responded Response

text \<open>
  The network as the call meets it: after how many milliseconds the promise of
  \<^verbatim>\<open>fetch\<close> would settle by itself (\<open>None\<close>: never), and how.
\<close>

record Network =
  fetch_settles_at :: "nat option"
  fetch_result :: FetchResult

text \<open>The component state that \<^verbatim>\<open>apiCall\<close> reads and writes, the browser's
  \<^verbatim>\<open>localStorage\<close>, and the alerts shown so far.\<close>

record ZoneData =
  zd_zones :: "ZoneType \<Rightarrow> Message list"
  zd_counts :: "ZoneType \<Rightarrow> int"
  zd_total :: int

record AppState =
  st_token :: "string option"
  st_user :: "User option"
  st_zoneData :: "ZoneData option"
  localStorage :: "string \<rightharpoonup> string"
  alerts :: "string list"

text \<open>
  What becomes of the promise that \<^verbatim>\<open>apiCall\<close> returns: it is fulfilled with a value,
  rejected with an error, or stays pending for ever; when it settles, in milliseconds
  after the call; and whether the timer's callback has run \<^verbatim>\<open>controller.abort()\<close>.
\<close>

datatype Outcome = Returns Json | Throws Thrown | Pending

record CallResult =
  outcome :: Outcome
  settled_at :: "nat option"
  aborted :: bool

text \<open>\<^verbatim>\<open>setTimeout(() => controller.abort(), 30000)\<close>\<close>

definition timeout_ms :: nat where
  "timeout_ms = 30000"

text \<open>\<^verbatim>\<open>controller.abort()\<close> makes the pending \<^verbatim>\<open>fetch\<close> reject with a DOMException
  named "AbortError".\<close>

definition abort_error :: Thrown where
  "abort_error = Thrown ''AbortError'' EngineText"

text \<open>
  \<^verbatim>\<open>await fetch(..., { ...options, headers, signal: controller.signal })\<close>: the fetch
  settles by itself when it does so before the timer fires; otherwise the timer's
  callback aborts it, at 30000 ms. The result is how the awaited promise settles, when,
  and whether the abort has run.
\<close>

definition await_fetch :: "Network \<Rightarrow> FetchResult \<times> nat \<times> bool" where
  "await_fetch net =
     (case fetch_settles_at net of
        None \<Rightarrow> (Rejected abort_error, timeout_ms, True)
      | Some t \<Rightarrow> if t < timeout_ms then (fetch_result net, t, False)
                else (Rejected abort_error, timeout_ms, True))"

text \<open>The headers of the request: \<^verbatim>\<open>if (token) headers['Authorization'] = `Bearer ${token}`\<close>.\<close>

definition request_headers :: "string option \<Rightarrow> (string \<times> string) list" where
  "request_headers tok =
     (''Content-Type'', ''application/json'')
     # (case tok of None \<Rightarrow> []
        | Some t \<Rightarrow> if t = [] then [] else [(''Authorization'', ''Bearer '' @ t)])"

text \<open>The \<^verbatim>\<open>catch\<close> block: an error named "AbortError" becomes the timeout error, any
  other error is thrown again. Every value thrown here is an \<^verbatim>\<open>Error\<close> (a DOMException
  is one too), so \<^verbatim>\<open>error instanceof Error\<close> holds.\<close>

definition catch_block :: "Thrown \<Rightarrow> Outcome" where
  "catch_block e =
     (if thrown_name e = ''AbortError''
      then Throws (Thrown ''Error'' (Text ''Request timed out. Please try again.''))
      else Throws e)"

text \<open>JavaScript truthiness of a JSON value, and \<^verbatim>\<open>error.detail\<close>: reading a property of
  \<^verbatim>\<open>null\<close> raises a TypeError, a value without the property gives \<^verbatim>\<open>undefined\<close>.
  The keys of an object are taken to be distinct.\<close>

fun truthy :: "Json \<Rightarrow> bool" where
  "truthy JNull = False"
| "truthy (JBool b) = b"
| "truthy (JNum n) = (n \<noteq> 0)"
| "truthy (JStr s) = (s \<noteq> [])"
| "truthy (JArr _) = True"
| "truthy (JObj _) = True"

fun detail :: "Json \<Rightarrow> Thrown + Json option" where
  "detail JNull = Inl (Thrown ''TypeError'' EngineText)"
| "detail (JObj kvs) = Inr (map_of kvs ''detail'')"
| "detail _ = Inr None"

text \<open>\<^verbatim>\<open>throw new Error(error.detail || 'Request failed')\<close>\<close>

definition request_failed :: "Json \<Rightarrow> Thrown" where
  "request_failed err =
     (case detail err of
        Inl e \<Rightarrow> e
      | Inr None \<Rightarrow> Thrown ''Error'' (Text ''Request failed'')
      | Inr (Some d) \<Rightarrow>
          if \<not> truthy d then Thrown ''Error'' (Text ''Request failed'')
          else (case d of JStr s \<Rightarrow> Thrown ''Error'' (Text s)
                | _ \<Rightarrow> Thrown ''Error'' (StringOf d)))"

text \<open>The 401 branch: both \<^verbatim>\<open>localStorage\<close> keys removed, \<^verbatim>\<open>setToken(null)\<close>,
  \<^verbatim>\<open>setUser(null)\<close>, \<^verbatim>\<open>setZoneData(null)\<close> and the alert.\<close>

definition clear_session :: "AppState \<Rightarrow> AppState" where
  "clear_session st =
     st\<lparr> localStorage := (localStorage st)(''docboxrx_token'' := None, ''docboxrx_user'' := None),
         st_token := None,
         st_user := None,
         st_zoneData := None,
         alerts := alerts st @ [''Session expired. Please log in again.''] \<rparr>"

text \<open>
  \<^verbatim>\<open>apiCall\<close>: what becomes of the returned promise, and the state afterwards. The
  endpoint, the options and the headers shape the request; how the network answers it is
  the argument \<open>net\<close>.

  \<^verbatim>\<open>clearTimeout(timeoutId)\<close> is the first statement after \<^verbatim>\<open>await fetch(...)\<close>, and the
  \<^verbatim>\<open>catch\<close> block clears the timer too: once the fetch has settled before the timer
  fires, nothing aborts the request any more. Both reads of the body come after that and
  are not timed. In the error branch the code awaits
  \<^verbatim>\<open>response.json().catch(() => ({ detail: 'Request failed' }))\<close> before it tests the
  status, so with a body that never ends neither the 401 branch nor the \<^verbatim>\<open>throw\<close> is
  reached; a body that is not JSON is replaced by \<^verbatim>\<open>{ detail: 'Request failed' }\<close>. The
  \<^verbatim>\<open>throw\<close> stands inside the \<^verbatim>\<open>try\<close>, so it passes through the \<^verbatim>\<open>catch\<close> block. In the
  success branch the promise of \<^verbatim>\<open>response.json()\<close> is returned as it is.
\<close>

definition apiCall :: "AppState \<Rightarrow> Network \<Rightarrow> CallResult \<times> AppState" where
  "apiCall st net =
     (case await_fetch net of
        (Rejected e, t, ab) \<Rightarrow>
          (\<lparr> outcome = catch_block e, settled_at = Some t, aborted = ab \<rparr>, st)
      | (Responded r, t, ab) \<Rightarrow>
          (case body_delay r of
             None \<Rightarrow> (\<lparr> outcome = Pending, settled_at = None, aborted = ab \<rparr>, st)
           | Some d \<Rightarrow>
               if \<not> response_ok r then
                 (let err = (case body r of
                               None \<Rightarrow> JObj [(''detail'', JStr ''Request failed'')]
                             | Some j \<Rightarrow> j)
                  in if status r = 401 \<and> truthy_string (st_token st)
                     then (\<lparr> outcome = Returns JNull, settled_at = Some (t + d),
                             aborted = ab \<rparr>, clear_session st)
                     else (\<lparr> outcome = catch_block (request_failed err),
                             settled_at = Some (t + d), aborted = ab \<rparr>, st))
               else (case body r of
                       None \<Rightarrow> (\<lparr> outcome = Throws (Thrown ''SyntaxError'' EngineText),
                                  settled_at = Some (t + d), aborted = ab \<rparr>, st)
                     | Some j \<Rightarrow> (\<lparr> outcome = Returns j, settled_at = Some (t + d),
                                    aborted = ab \<rparr>, st))))"

subsection \<open>The triage grid service\<close>

text \<open>
  The backend is not among the repository's files. What follows in this and the next two
  subsections is written from the specification (sections 3 and 4) and from the
  repository's documents \<^verbatim>\<open>SYSTEM_SPECS.md\<close> and \<^verbatim>\<open>DOCBOXRX_SPECS.md\<close>, which describe
  it. Timestamps are seconds on a common clock; a risk score is a real number.
\<close>

text \<open>
  Modelled from the spec: the lifecycle states of a stored message, declared by the
  backend, which is not among the repository's files. Section 3: "lifecycle state
  (enumerated: new, triaged, pending action, resolved, overdue)".
\<close>

datatype Lifecycle = New | Triaged | Pending_action | Resolved | Overdue

text \<open>
  Modelled from the spec: the stored record of a message (the state vector of section 3;
  the table \<^verbatim>\<open>message_state_vectors\<close> of \<^verbatim>\<open>SYSTEM_SPECS.md\<close>), declared by the backend,
  which is not among the repository's files. Of its attributes, the identity, the risk
  score, the stored zone, the owner role, the deadline and the lifecycle state.
\<close>

record StateVector =
  vector_id :: string
  risk_score :: real
  stored_zone :: ZoneType
  current_owner_role :: string
  deadline_at :: int
  lifecycle_state :: Lifecycle

text \<open>
  Modelled from the spec: the length of \<open>n\<close> hours on the clock of the timestamps (the
  "24h" and "72h" of section 4.2); the grid service that computes with it is not among
  the repository's files.
\<close>

definition hours :: "int \<Rightarrow> int" where
  "hours n = n * 3600"

text \<open>
  Modelled from the spec: \<^verbatim>\<open>zone_for_message\<close> of \<^verbatim>\<open>app/services/grid.py\<close>, which is
  not among the repository's files. Section 4.2: "risk score >= 0.8 -> STAT; else if
  deadline <= 24h from now -> TODAY; else if deadline <= 72h from now -> THIS WEEK;
  else -> LATER", evaluated in order (\<^verbatim>\<open>SYSTEM_SPECS.md\<close>, section 7, lists the same rules).
\<close>

definition zone_for_message :: "int \<Rightarrow> StateVector \<Rightarrow> ZoneType" where
  "zone_for_message now v =
     (if risk_score v \<ge> 0.8 then STAT
      else if deadline_at v \<le> now + hours 24 then TODAY
      else if deadline_at v \<le> now + hours 72 then THIS_WEEK
      else LATER)"

text \<open>
  Modelled from the spec: the filter of the grid query, which is not among the
  repository's files. Section 4.2: the query keeps the messages whose lifecycle state is
  needs-reply (new), waiting (triaged, pending action) or overdue, and leaves out the
  resolved ones.
\<close>

definition in_grid :: "StateVector \<Rightarrow> bool" where
  "in_grid v = (lifecycle_state v \<noteq> Resolved)"

text \<open>
  Modelled from the spec: the bucket of one zone in \<^verbatim>\<open>bucket(messages, owner?)\<close>
  (section 4.2), which is not among the repository's files: the messages of the query
  whose display zone is that zone.
\<close>

definition bucket_items :: "int \<Rightarrow> StateVector list \<Rightarrow> ZoneType \<Rightarrow> StateVector list" where
  "bucket_items now vs z = filter (\<lambda>v. zone_for_message now v = z) (filter in_grid vs)"

subsection \<open>Escalation and the audit ledger\<close>

text \<open>
  Modelled from the spec: the event types of the audit log, declared by the backend,
  which is not among the repository's files. Section 3 and \<^verbatim>\<open>SYSTEM_SPECS.md\<close>,
  section 4.2, name \<^verbatim>\<open>ESCALATED\<close>.
\<close>

datatype EventType = ESCALATED

text \<open>
  Modelled from the spec: the audit event (section 3; the table \<^verbatim>\<open>message_events\<close> of
  \<^verbatim>\<open>SYSTEM_SPECS.md\<close>), declared by the backend, which is not among the repository's
  files. An event's identity is its position in the append-only list.
\<close>

record AuditEvent =
  event_vector_id :: string
  event_type :: EventType
  description :: string
  created_at :: int

text \<open>
  Modelled from the spec: the error kinds of section 7, declared by the backend, which
  is not among the repository's files.
\<close>

datatype ErrorKind = ValidationError | NotFound | InvalidState | ExternalProviderError
  | PersistenceError

text \<open>
  Modelled from the spec: the persisted records that an escalation touches (section 6,
  persistence: messages by identity, events appended), kept by the backend, which is not
  among the repository's files.
\<close>

record Ledger =
  vectors :: "string \<rightharpoonup> StateVector"
  message_events :: "AuditEvent list"

text \<open>
  Modelled from the spec: the fixed escalation role of section 4.3, set by the
  escalation handler, which is not among the repository's files. \<^verbatim>\<open>SYSTEM_SPECS.md\<close>,
  section 8: the owner role becomes \<^verbatim>\<open>lead_doctor\<close>.
\<close>

definition escalation_role :: string where
  "escalation_role = ''lead_doctor''"

text \<open>
  Modelled from the spec: the handler of \<^verbatim>\<open>POST /api/messages/{id}/escalate\<close>, which is
  not among the repository's files (GridView.tsx calls it from \<^verbatim>\<open>handleEscalate\<close>).
  Section 4.3: from any state but resolved, the lifecycle becomes overdue, the owner
  becomes the fixed escalation role and one event of type ESCALATED is appended, as one
  unit; failure semantics: an unknown message gives NotFound, a resolved one
  InvalidState, with no mutation. The result is the error, if any, and the ledger
  afterwards; the event's description and the time are arguments.
\<close>

definition escalate :: "int \<Rightarrow> string \<Rightarrow> Ledger \<Rightarrow> string \<Rightarrow> ErrorKind option \<times> Ledger" where
  "escalate now descr lg mid =
     (case vectors lg mid of
        None \<Rightarrow> (Some NotFound, lg)
      | Some v \<Rightarrow>
          if lifecycle_state v = Resolved then (Some InvalidState, lg)
          else (None,
                lg\<lparr> vectors := (vectors lg)(mid \<mapsto>
                        v\<lparr> lifecycle_state := Overdue,
                           current_owner_role := escalation_role \<rparr>),
                    message_events := message_events lg @
                        [\<lparr> event_vector_id = mid, event_type = ESCALATED,
                           description = descr, created_at = now \<rparr>] \<rparr>))"

subsection \<open>Learning from corrections\<close>

text \<open>
  Modelled from the spec: the override table (\<^verbatim>\<open>rule_overrides: key, zone\<close> in
  \<^verbatim>\<open>DOCBOXRX_SPECS.md\<close>), kept by the backend, which is not among the repository's
  files. Section 4.1: an override is keyed by a coarse signal, the sender domain, and
  gives the target zone.
\<close>

type_synonym Overrides = "string \<rightharpoonup> ZoneType"

text \<open>
  Modelled from the spec: the recording of one override, done by the correction handler,
  which is not among the repository's files. Section 4.1: "a later correction for the
  same signal replaces the earlier one (last-write-wins)"; overrides do not expire, so
  nothing else removes an entry.
\<close>

definition record_override :: "Overrides \<Rightarrow> string \<Rightarrow> ZoneType \<Rightarrow> Overrides" where
  "record_override ov d z = ov(d \<mapsto> z)"

text \<open>
  Modelled from the spec: a sequence of corrections, each a sender domain with its target
  zone, recorded one after the other by the correction handler, which is not among the
  repository's files.
\<close>

fun record_all :: "Overrides \<Rightarrow> (string \<times> ZoneType) list \<Rightarrow> Overrides" where
  "record_all ov [] = ov"
| "record_all ov ((d, z) # cs) = record_all (record_override ov d z) cs"

text \<open>
  Modelled from the spec: the records that a correction touches, kept by the backend,
  which is not among the repository's files: the messages by identity and the override
  table.
\<close>

record Inbox =
  inbox_messages :: "string \<rightharpoonup> Message"
  rule_overrides :: Overrides

text \<open>
  Modelled from the spec: the handler of \<^verbatim>\<open>POST /api/messages/correct\<close>, which App.tsx
  calls from \<^verbatim>\<open>handleCorrection\<close> with \<^verbatim>\<open>{ message_id, new_zone }\<close> and which is not
  among the repository's files. Section 4.1: when a user moves a message to another
  zone, the system records an override for the message's sender domain; section 3: the
  \<^verbatim>\<open>corrected\<close> flag records the divergence; section 7: an unknown message gives
  NotFound.
\<close>

definition correct :: "Inbox \<Rightarrow> string \<Rightarrow> ZoneType \<Rightarrow> ErrorKind + Inbox" where
  "correct ib mid new_zone =
     (case inbox_messages ib mid of
        None \<Rightarrow> Inl NotFound
      | Some m \<Rightarrow>
          Inr (ib\<lparr> inbox_messages := (inbox_messages ib)(mid \<mapsto>
                       m\<lparr> msg_zone := new_zone, corrected := True \<rparr>),
                   rule_overrides :=
                       record_override (rule_overrides ib) (sender_domain m) new_zone \<rparr>))"

text \<open>
  Modelled from the spec: the zone that \<^verbatim>\<open>classify\<close> returns, as far as the overrides
  decide it; the classifier is not among the repository's files. Section 4.1: "this
  override, if present, takes precedence over the trigger table for matching senders".
  The argument \<open>rules\<close> stands for the rest of the classifier (trigger table and
  reasoning fallback), whatever it computes.
\<close>

definition classify_zone :: "Overrides \<Rightarrow> (Message \<Rightarrow> ZoneType) \<Rightarrow> Message \<Rightarrow> ZoneType" where
  "classify_zone ov rules m =
     (case ov (sender_domain m) of Some z \<Rightarrow> z | None \<Rightarrow> rules m)"

subsection \<open>Sample data\<close>

text \<open>A message for which the classifier supplied none of the four derived fields, in a
  given zone, and a user.\<close>

definition sample_message :: "ZoneType \<Rightarrow> Message" where
  "sample_message z =
     \<lparr> msg_id = ''m1'', sender = ''Front Desk <desk@clinic.example>'',
       sender_domain = ''clinic.example'', subject = ''Parking'', snippet = None,
       msg_zone = z, confidence = 0.5, reason = ''No rule matched'',
       jone5_message = ''Sorted.'', received_at = ''2026-01-06T09:00:00Z'',
       classified_at = ''2026-01-06T09:00:01Z'', corrected = False,
       summary = None, recommended_action = None, action_type = None,
       draft_reply = None \<rparr>"

definition sample_user :: User where
  "sample_user =
     \<lparr> user_id = ''u1'', email = ''doctor@practice.com'', user_name = ''Dr. Smith'',
       practice_name = None \<rparr>"

text \<open>A session with a token held, and a response of a given status whose body is the
  JSON text \<^verbatim>\<open>{"detail": "x"}\<close> and ends after a given delay, if ever.\<close>

definition sample_state :: AppState where
  "sample_state =
     \<lparr> st_token = Some ''jwt'', st_user = Some sample_user, st_zoneData = None,
       localStorage = [''docboxrx_token'' \<mapsto> ''jwt'', ''docboxrx_user'' \<mapsto> ''{}''],
       alerts = [] \<rparr>"

definition sample_response :: "nat \<Rightarrow> nat option \<Rightarrow> Response" where
  "sample_response code delay =
     \<lparr> status = code, body_delay = delay, body = Some (JObj [(''detail'', JStr ''x'')]) \<rparr>"

text \<open>A stored record in a given lifecycle state, and a ledger that holds it.\<close>

definition sample_vector :: "Lifecycle \<Rightarrow> StateVector" where
  "sample_vector l =
     \<lparr> vector_id = ''v1'', risk_score = 0.5, stored_zone = THIS_WEEK,
       current_owner_role = ''triage_nurse'', deadline_at = 90000, lifecycle_state = l \<rparr>"

definition sample_ledger :: "Lifecycle \<Rightarrow> Ledger" where
  "sample_ledger l = \<lparr> vectors = [''v1'' \<mapsto> sample_vector l], message_events = [] \<rparr>"

section \<open>Properties\<close>

subsection \<open>The Decision Deck\<close>

lemma length_preview: "length (preview z its) = min (if z = STAT then 3 else 8) (length its)"
  by (auto simp: preview_def min.commute)

lemma render_zone_key: "card_key (render_zone zs z) = z"
  by (simp add: render_zone_def Let_def)



lemma zoneData_None: "zoneData zs z = None \<longleftrightarrow> z \<notin> zone ` set zs"
  by (auto simp: zoneData_def find_None_iff)

text \<open>
  Claim C10. For every state of the grid (also before the first response), the deck
  renders exactly four cards, for STAT, TODAY, THIS WEEK and LATER in this order, titled
  by their zone. Every card of the deck whose zone the response does not contain shows
  the count 0 and "No items". A card of the deck carries the overdue badge exactly when
  it is the STAT card: the badges of the four cards are, in order, the STAT entry's
  overdue count (0 without such an entry) and nothing for TODAY, THIS WEEK and LATER.
\<close>

theorem deck_columns:
  "length (GridView_cards grid) = 4
   \<and> map card_key (GridView_cards grid) = [STAT, TODAY, THIS_WEEK, LATER]
   \<and> map card_title (GridView_cards grid) = [''STAT'', ''TODAY'', ''THIS_WEEK'', ''LATER'']
   \<and> (\<forall>c \<in> set (GridView_cards grid).
         card_key c \<notin> zone ` set (grid_zones grid) \<longrightarrow>
           count_badge c = 0 \<and> card_content c = NoItems)
   \<and> (\<forall>c \<in> set (GridView_cards grid). (overdue_badge c \<noteq> None) = (card_key c = STAT))
   \<and> map overdue_badge (GridView_cards grid)
       = [Some (count_or_zero (zoneData (grid_zones grid) STAT) overdue_count),
          None, None, None]
   \<and> (\<forall>z. zoneData (grid_zones grid) z = None \<longrightarrow>
         count_badge (render_zone (grid_zones grid) z) = 0
         \<and> card_content (render_zone (grid_zones grid) z) = NoItems)
   \<and> (\<forall>z. (overdue_badge (render_zone (grid_zones grid) z) \<noteq> None) = (z = STAT))"
proof -
  have absent: "count_badge (render_zone zs z) = 0 \<and> card_content (render_zone zs z) = NoItems"
    if "zoneData zs z = None" for zs z
    using that
    by (simp add: render_zone_def Let_def zone_items_def count_or_zero_def preview_def)
  have badge: "(overdue_badge (render_zone zs z) \<noteq> None) = (z = STAT)" for zs z
    by (simp add: render_zone_def Let_def)
  have cards: "c \<in> set (GridView_cards grid) \<Longrightarrow>
      c = render_zone (grid_zones grid) (card_key c)" for c
    by (auto simp: GridView_cards_def render_zone_key)
  have "length (GridView_cards grid) = 4"
    by (simp add: GridView_cards_def)
  moreover have "map card_key (GridView_cards grid) = [STAT, TODAY, THIS_WEEK, LATER]"
    by (simp add: GridView_cards_def render_zone_key)
  moreover have "map card_title (GridView_cards grid)
      = [''STAT'', ''TODAY'', ''THIS_WEEK'', ''LATER'']"
    by (simp add: GridView_cards_def render_zone_def Let_def)
  moreover have "\<forall>c \<in> set (GridView_cards grid).
         card_key c \<notin> zone ` set (grid_zones grid) \<longrightarrow>
           count_badge c = 0 \<and> card_content c = NoItems"
  proof (intro ballI impI)
    fix c
    assume c: "c \<in> set (GridView_cards grid)"
      and "card_key c \<notin> zone ` set (grid_zones grid)"
    then have "zoneData (grid_zones grid) (card_key c) = None"
      by (simp add: zoneData_None)
    then have "count_badge (render_zone (grid_zones grid) (card_key c)) = 0
        \<and> card_content (render_zone (grid_zones grid) (card_key c)) = NoItems"
      by (rule absent)
    with cards [OF c] show "count_badge c = 0 \<and> card_content c = NoItems"
      by simp
  qed
  moreover have "\<forall>c \<in> set (GridView_cards grid).
      (overdue_badge c \<noteq> None) = (card_key c = STAT)"
  proof
    fix c
    assume c: "c \<in> set (GridView_cards grid)"
    have "(overdue_badge (render_zone (grid_zones grid) (card_key c)) \<noteq> None)
        = (card_key c = STAT)"
      by (rule badge)
    with cards [OF c] show "(overdue_badge c \<noteq> None) = (card_key c = STAT)"
      by simp
  qed
  moreover have "map overdue_badge (GridView_cards grid)
       = [Some (count_or_zero (zoneData (grid_zones grid) STAT) overdue_count),
          None, None, None]"
    by (simp add: GridView_cards_def render_zone_def Let_def)
  ultimately show ?thesis
    using absent badge by blast
qed

text \<open>A response that holds the TODAY zone only, with two items counted and none listed.\<close>

theorem deck_columns_witness:
  "map card_key (GridView_cards (Some
      \<lparr> grid_owner = Some ''lead_doctor'',
        zones = [\<lparr> zone = TODAY, total_count = 2, overdue_count = 1, items = [] \<rparr>] \<rparr>))
     = [STAT, TODAY, THIS_WEEK, LATER]
   \<and> map count_badge (GridView_cards (Some
      \<lparr> grid_owner = Some ''lead_doctor'',
        zones = [\<lparr> zone = TODAY, total_count = 2, overdue_count = 1, items = [] \<rparr>] \<rparr>))
     = [0, 2, 0, 0]
   \<and> map card_content (GridView_cards (Some
      \<lparr> grid_owner = Some ''lead_doctor'',
        zones = [\<lparr> zone = TODAY, total_count = 2, overdue_count = 1, items = [] \<rparr>] \<rparr>))
     = [NoItems, NoItems, NoItems, NoItems]
   \<and> map overdue_badge (GridView_cards (Some
      \<lparr> grid_owner = Some ''lead_doctor'',
        zones = [\<lparr> zone = TODAY, total_count = 2, overdue_count = 1, items = [] \<rparr>] \<rparr>))
     = [Some 0, None, None, None]"
  using deck_columns [of "Some
      \<lparr> grid_owner = Some ''lead_doctor'',
        zones = [\<lparr> zone = TODAY, total_count = 2, overdue_count = 1, items = [] \<rparr>] \<rparr>"]
  by (simp add: GridView_cards_def grid_zones_def zoneData_def render_zone_def Let_def
      count_or_zero_def zone_items_def preview_def)

subsection \<open>apiCall\<close>

lemma await_fetch_late:
  "fetch_settles_at net = None \<or> (\<exists>t. fetch_settles_at net = Some t \<and> timeout_ms \<le> t)
   \<Longrightarrow> await_fetch net = (Rejected abort_error, timeout_ms, True)"
  by (auto simp: await_fetch_def)

lemma await_fetch_in_time:
  "fetch_settles_at net = Some t \<Longrightarrow> t < timeout_ms
   \<Longrightarrow> await_fetch net = (fetch_result net, t, False)"
  by (simp add: await_fetch_def)

text \<open>
  The claim C9 as stated (every request through \<^verbatim>\<open>apiCall\<close> is aborted after 30 seconds
  and then surfaces the timeout error; every 401 received while a token is held clears
  the session and returns null) does not hold. With a token held: a response with
  status 200 arrives after 100 ms and its body ends 40 seconds later; the call is not
  aborted, and returns the body after 40100 ms, without the timeout error. A response
  with status 401 arrives after 100 ms and its body never ends; the call is not aborted,
  its promise stays pending, no null is returned and the session is left as it was.
\<close>

theorem apiCall_timeout_and_401_counterexample:
  "apiCall sample_state
       \<lparr> fetch_settles_at = Some 100,
         fetch_result = Responded (sample_response 200 (Some 40000)) \<rparr>
     = (\<lparr> outcome = Returns (JObj [(''detail'', JStr ''x'')]), settled_at = Some 40100,
          aborted = False \<rparr>, sample_state)
   \<and> timeout_ms < 40100
   \<and> truthy_string (st_token sample_state)
   \<and> apiCall sample_state
       \<lparr> fetch_settles_at = Some 100,
         fetch_result = Responded (sample_response 401 None) \<rparr>
     = (\<lparr> outcome = Pending, settled_at = None, aborted = False \<rparr>, sample_state)
   \<and> st_token sample_state = Some ''jwt''"
  by (simp add: apiCall_def await_fetch_def timeout_ms_def sample_response_def
      response_ok_def sample_state_def truthy_string_def)

text \<open>
  Claim C9, amended. The timer of \<^verbatim>\<open>apiCall\<close> runs 30 seconds and covers the wait for the
  response only. A request whose fetch has not settled when the timer fires is aborted,
  and the call throws the error "Request timed out. Please try again." at that moment;
  the state is left as it was. Once the fetch has settled in time the request is never
  aborted, however long the body takes; with a body that never ends the promise stays
  pending and the state is left as it was. A response with status 401 (which is not ok)
  whose body read has settled, received while a token is held (the token is a non-empty
  string), makes the call return null without throwing, after it has cleared the token,
  the user, the zone data and the two \<^verbatim>\<open>localStorage\<close> keys \<^verbatim>\<open>docboxrx_token\<close> and
  \<^verbatim>\<open>docboxrx_user\<close>.
\<close>

theorem apiCall_timeout_and_401:
  "timeout_ms = 30 * 1000
   \<and> ((fetch_settles_at net = None \<or> (\<exists>t. fetch_settles_at net = Some t \<and> timeout_ms \<le> t)) \<longrightarrow>
        apiCall st net
          = (\<lparr> outcome = Throws (Thrown ''Error'' (Text ''Request timed out. Please try again.'')),
               settled_at = Some timeout_ms, aborted = True \<rparr>, st))
   \<and> ((\<exists>t. fetch_settles_at net = Some t \<and> t < timeout_ms) \<longrightarrow>
        \<not> aborted (fst (apiCall st net)))
   \<and> ((\<exists>t. fetch_settles_at net = Some t \<and> t < timeout_ms) \<and> fetch_result net = Responded r
        \<and> body_delay r = None \<longrightarrow>
        apiCall st net = (\<lparr> outcome = Pending, settled_at = None, aborted = False \<rparr>, st))
   \<and> (fetch_settles_at net = Some t \<and> t < timeout_ms \<and> fetch_result net = Responded r
        \<and> body_delay r = Some d \<and> status r = 401 \<and> truthy_string (st_token st) \<longrightarrow>
        apiCall st net
          = (\<lparr> outcome = Returns JNull, settled_at = Some (t + d), aborted = False \<rparr>,
             clear_session st)
        \<and> st_token (clear_session st) = None
        \<and> st_user (clear_session st) = None
        \<and> st_zoneData (clear_session st) = None
        \<and> localStorage (clear_session st) ''docboxrx_token'' = None
        \<and> localStorage (clear_session st) ''docboxrx_user'' = None)"
proof (intro conjI impI)
  show "timeout_ms = 30 * 1000" by (simp add: timeout_ms_def)
next
  assume "fetch_settles_at net = None \<or> (\<exists>t. fetch_settles_at net = Some t \<and> timeout_ms \<le> t)"
  then have "await_fetch net = (Rejected abort_error, timeout_ms, True)"
    by (rule await_fetch_late)
  then show "apiCall st net
          = (\<lparr> outcome = Throws (Thrown ''Error'' (Text ''Request timed out. Please try again.'')),
               settled_at = Some timeout_ms, aborted = True \<rparr>, st)"
    by (simp add: apiCall_def catch_block_def abort_error_def)
next
  assume "\<exists>t. fetch_settles_at net = Some t \<and> t < timeout_ms"
  then obtain t' where "await_fetch net = (fetch_result net, t', False)"
    by (auto simp: await_fetch_in_time)
  then show "\<not> aborted (fst (apiCall st net))"
    by (simp add: apiCall_def Let_def split: FetchResult.splits option.splits)
next
  assume a: "(\<exists>t. fetch_settles_at net = Some t \<and> t < timeout_ms)
      \<and> fetch_result net = Responded r \<and> body_delay r = None"
  then obtain t' where "await_fetch net = (Responded r, t', False)"
    by (auto simp: await_fetch_in_time)
  with a show "apiCall st net = (\<lparr> outcome = Pending, settled_at = None, aborted = False \<rparr>, st)"
    by (simp add: apiCall_def)
next
  assume a: "fetch_settles_at net = Some t \<and> t < timeout_ms \<and> fetch_result net = Responded r
        \<and> body_delay r = Some d \<and> status r = 401 \<and> truthy_string (st_token st)"
  then have "await_fetch net = (Responded r, t, False)"
    by (simp add: await_fetch_in_time)
  with a show "apiCall st net
          = (\<lparr> outcome = Returns JNull, settled_at = Some (t + d), aborted = False \<rparr>,
             clear_session st)"
    by (simp add: apiCall_def response_ok_def Let_def)
qed (simp_all add: clear_session_def)

text \<open>With a token held: a fetch that would take 45 seconds; a 401 response after 120
  milliseconds whose body, not JSON, ends 30 milliseconds later; a response after 100
  milliseconds whose body never ends.\<close>

theorem apiCall_timeout_and_401_witness:
  "apiCall sample_state
       \<lparr> fetch_settles_at = Some 45000,
         fetch_result = Responded (sample_response 200 (Some 0)) \<rparr>
     = (\<lparr> outcome = Throws (Thrown ''Error'' (Text ''Request timed out. Please try again.'')),
          settled_at = Some 30000, aborted = True \<rparr>, sample_state)
   \<and> fst (apiCall sample_state
       \<lparr> fetch_settles_at = Some 120,
         fetch_result = Responded \<lparr> status = 401, body_delay = Some 30, body = None \<rparr> \<rparr>)
     = \<lparr> outcome = Returns JNull, settled_at = Some 150, aborted = False \<rparr>
   \<and> st_token (snd (apiCall sample_state
       \<lparr> fetch_settles_at = Some 120,
         fetch_result = Responded \<lparr> status = 401, body_delay = Some 30, body = None \<rparr> \<rparr>))
     = None
   \<and> localStorage (snd (apiCall sample_state
       \<lparr> fetch_settles_at = Some 120,
         fetch_result = Responded \<lparr> status = 401, body_delay = Some 30, body = None \<rparr> \<rparr>))
       ''docboxrx_token'' = None
   \<and> apiCall sample_state
       \<lparr> fetch_settles_at = Some 100,
         fetch_result = Responded (sample_response 200 None) \<rparr>
     = (\<lparr> outcome = Pending, settled_at = None, aborted = False \<rparr>, sample_state)"
  using apiCall_timeout_and_401 [where st = sample_state
          and net = "\<lparr> fetch_settles_at = Some 45000,
                        fetch_result = Responded (sample_response 200 (Some 0)) \<rparr>"]
    apiCall_timeout_and_401 [where st = sample_state
          and net = "\<lparr> fetch_settles_at = Some 120,
                        fetch_result = Responded
                          \<lparr> status = 401, body_delay = Some 30, body = None \<rparr> \<rparr>"
          and r = "\<lparr> status = 401, body_delay = Some 30, body = None \<rparr>"
          and t = 120 and d = 30]
    apiCall_timeout_and_401 [where st = sample_state
          and net = "\<lparr> fetch_settles_at = Some 100,
                        fetch_result = Responded (sample_response 200 None) \<rparr>"
          and r = "sample_response 200 None"]
  by (simp add: timeout_ms_def truthy_string_def sample_state_def sample_response_def)

subsection \<open>The detail pane's fallbacks\<close>

text \<open>
  The claim C8 as the specification states it (the four derived fields, when not
  supplied, are composed from templates keyed by the message's zone) does not hold of
  the pane. For the sample message nothing is supplied: in zone STAT no action type is
  shown at all, and in the zones STAT and LATER the pane shows the same draft, the same
  summary and the same recommended action.
\<close>

theorem pane_fallbacks_counterexample:
  "action_type (sample_message STAT) = None
   \<and> pane_action_type (sample_message STAT) = None
   \<and> msg_zone (sample_message STAT) \<noteq> msg_zone (sample_message LATER)
   \<and> draft_reply (sample_message STAT) = None
   \<and> draft_reply (sample_message LATER) = None
   \<and> pane_draft_reply (sample_message STAT) sample_user
       = pane_draft_reply (sample_message LATER) sample_user
   \<and> pane_summary (sample_message STAT) = pane_summary (sample_message LATER)
   \<and> pane_recommended_action (sample_message STAT)
       = pane_recommended_action (sample_message LATER)"
  by (simp add: sample_message_def pane_action_type_def truthy_string_def pane_draft_reply_def
      pane_summary_def pane_recommended_action_def or_else_def draft_template_def)

text \<open>
  Claim C8, amended. When the draft reply is missing or empty, the pane shows one
  generic template, filled with the message's subject and the user's name; a missing
  summary is replaced by the reason, or by a fixed sentence when the reason is empty; a
  missing recommended action by "Review and respond as needed"; a missing action type
  is not shown. None of the four depends on the message's zone.
  (\<^verbatim>\<open>DOCBOXRX_SPECS.md\<close>, known limitation 4: "fallback draft is generic".)
\<close>

theorem pane_fallbacks:
  "(\<not> truthy_string (draft_reply m) \<longrightarrow> pane_draft_reply m u = draft_template m u)
   \<and> (\<not> truthy_string (summary m) \<longrightarrow>
        pane_summary m = (if reason m = [] then
          ''jonE5 analyzed this email and classified it based on sender patterns and content keywords.''
          else reason m))
   \<and> (\<not> truthy_string (recommended_action m) \<longrightarrow>
        pane_recommended_action m = ''Review and respond as needed'')
   \<and> (\<not> truthy_string (action_type m) \<longrightarrow> pane_action_type m = None)
   \<and> draft_template (m\<lparr>msg_zone := z\<rparr>) u = draft_template m u
   \<and> pane_draft_reply (m\<lparr>msg_zone := z\<rparr>) u = pane_draft_reply m u
   \<and> pane_summary (m\<lparr>msg_zone := z\<rparr>) = pane_summary m
   \<and> pane_recommended_action (m\<lparr>msg_zone := z\<rparr>) = pane_recommended_action m
   \<and> pane_action_type (m\<lparr>msg_zone := z\<rparr>) = pane_action_type m"
  by (auto simp: truthy_string_def pane_draft_reply_def pane_summary_def
      pane_recommended_action_def pane_action_type_def or_else_def draft_template_def
      split: option.splits)

theorem pane_fallbacks_witness:
  "pane_draft_reply (sample_message TODAY) sample_user
     = ''Thank you for your email regarding '' @ [CHR 0x22] @ ''Parking'' @ [CHR 0x22] @ ''.''
       @ [CHR 0x0A, CHR 0x0A]
       @ ''I have reviewed the information and will respond accordingly.''
       @ [CHR 0x0A, CHR 0x0A] @ ''Best regards,'' @ [CHR 0x0A] @ ''Dr. Smith''
   \<and> pane_summary (sample_message TODAY) = ''No rule matched''
   \<and> pane_recommended_action (sample_message TODAY) = ''Review and respond as needed''
   \<and> pane_action_type (sample_message TODAY) = None"
  using pane_fallbacks [of "sample_message TODAY" sample_user]
  by (simp add: sample_message_def sample_user_def truthy_string_def draft_template_def)

subsection \<open>The triage grid service\<close>

text \<open>
  Claim C6, for the grid service as the specification describes it. The display zone of a
  message does not depend on its stored zone. It is STAT when the risk score is at least
  0.8; otherwise TODAY when the deadline is at most 24 hours after now; otherwise THIS
  WEEK when it is at most 72 hours after now; otherwise LATER. A message with risk score
  0.5 and a deadline 10 hours away is shown under TODAY. The bucket of a zone holds the
  messages of the query (those that are not resolved) whose display zone it is.
\<close>

theorem display_zone_rule:
  "zone_for_message now (v\<lparr>stored_zone := z\<rparr>) = zone_for_message now v
   \<and> (risk_score v \<ge> 0.8 \<longrightarrow> zone_for_message now v = STAT)
   \<and> (risk_score v < 0.8 \<and> deadline_at v \<le> now + hours 24 \<longrightarrow> zone_for_message now v = TODAY)
   \<and> (risk_score v < 0.8 \<and> now + hours 24 < deadline_at v \<and> deadline_at v \<le> now + hours 72
        \<longrightarrow> zone_for_message now v = THIS_WEEK)
   \<and> (risk_score v < 0.8 \<and> now + hours 72 < deadline_at v \<longrightarrow> zone_for_message now v = LATER)
   \<and> (risk_score v = 0.5 \<and> deadline_at v = now + hours 10 \<longrightarrow> zone_for_message now v = TODAY)
   \<and> (v \<in> set (bucket_items now vs zn)
        \<longleftrightarrow> v \<in> set vs \<and> in_grid v \<and> zone_for_message now v = zn)"
  by (auto simp: zone_for_message_def hours_def bucket_items_def)

text \<open>Risk 0.5 with the deadline 10 hours away and the stored zone STAT; risk 0.85 with
  the deadline 100 hours away and the stored zone LATER.\<close>

theorem display_zone_rule_witness:
  "zone_for_message 1000
     \<lparr> vector_id = ''v1'', risk_score = 0.5, stored_zone = STAT,
       current_owner_role = ''triage_nurse'', deadline_at = 1000 + hours 10,
       lifecycle_state = Triaged \<rparr> = TODAY
   \<and> zone_for_message 1000
     \<lparr> vector_id = ''v2'', risk_score = 0.85, stored_zone = LATER,
       current_owner_role = ''triage_nurse'', deadline_at = 1000 + hours 100,
       lifecycle_state = New \<rparr> = STAT"
  using display_zone_rule [where now = 1000 and v = "\<lparr> vector_id = ''v1'', risk_score = 0.5,
       stored_zone = STAT, current_owner_role = ''triage_nurse'',
       deadline_at = 1000 + hours 10, lifecycle_state = Triaged \<rparr>"]
    display_zone_rule [where now = 1000 and v = "\<lparr> vector_id = ''v2'', risk_score = 0.85,
       stored_zone = LATER, current_owner_role = ''triage_nurse'',
       deadline_at = 1000 + hours 100, lifecycle_state = New \<rparr>"]
  by simp

subsection \<open>Escalation\<close>

text \<open>
  Claim C3, for the escalation handler as the specification describes it. Escalating a
  stored message that is not resolved succeeds: its lifecycle state becomes overdue, its
  owner the escalation role, no other message changes, and exactly one event, of type
  ESCALATED and referring to the message, is appended. Escalating an unknown message
  fails with NotFound and a resolved one with InvalidState; a failure leaves the whole
  ledger (messages and events) as it was. So an event is appended exactly when the
  escalation succeeds.
\<close>

theorem escalate_atomic:
  "(vectors lg mid = Some v \<and> lifecycle_state v \<noteq> Resolved \<longrightarrow>
      fst (escalate now descr lg mid) = None
      \<and> vectors (snd (escalate now descr lg mid)) mid
          = Some (v\<lparr> lifecycle_state := Overdue, current_owner_role := escalation_role \<rparr>)
      \<and> (\<forall>k. k \<noteq> mid \<longrightarrow> vectors (snd (escalate now descr lg mid)) k = vectors lg k)
      \<and> message_events (snd (escalate now descr lg mid))
          = message_events lg @ [\<lparr> event_vector_id = mid, event_type = ESCALATED,
                                  description = descr, created_at = now \<rparr>]
      \<and> length (message_events (snd (escalate now descr lg mid)))
          = length (message_events lg) + 1)
   \<and> (vectors lg mid = None \<longrightarrow> escalate now descr lg mid = (Some NotFound, lg))
   \<and> (vectors lg mid = Some v \<and> lifecycle_state v = Resolved \<longrightarrow>
        escalate now descr lg mid = (Some InvalidState, lg))
   \<and> (fst (escalate now descr lg mid) \<noteq> None \<longrightarrow> snd (escalate now descr lg mid) = lg)
   \<and> ((message_events (snd (escalate now descr lg mid)) = message_events lg)
        = (fst (escalate now descr lg mid) \<noteq> None))"
  by (auto simp: escalate_def split: option.splits)

text \<open>A triaged message is escalated; a resolved one and an unknown one are refused.\<close>

theorem escalate_atomic_witness:
  "fst (escalate 500 ''Escalated to lead doctor'' (sample_ledger Triaged) ''v1'') = None
   \<and> vectors (snd (escalate 500 ''Escalated to lead doctor'' (sample_ledger Triaged) ''v1'')) ''v1''
       = Some ((sample_vector Triaged)
               \<lparr> lifecycle_state := Overdue, current_owner_role := ''lead_doctor'' \<rparr>)
   \<and> message_events (snd (escalate 500 ''Escalated to lead doctor'' (sample_ledger Triaged) ''v1''))
       = [\<lparr> event_vector_id = ''v1'', event_type = ESCALATED,
            description = ''Escalated to lead doctor'', created_at = 500 \<rparr>]
   \<and> escalate 500 ''Escalated to lead doctor'' (sample_ledger Resolved) ''v1''
       = (Some InvalidState, sample_ledger Resolved)
   \<and> escalate 500 ''Escalated to lead doctor'' (sample_ledger Triaged) ''v2''
       = (Some NotFound, sample_ledger Triaged)"
  using escalate_atomic [where lg = "sample_ledger Triaged" and mid = "''v1''"
          and v = "sample_vector Triaged" and now = 500
          and descr = "''Escalated to lead doctor''"]
    escalate_atomic [where lg = "sample_ledger Resolved" and mid = "''v1''"
          and v = "sample_vector Resolved" and now = 500
          and descr = "''Escalated to lead doctor''"]
    escalate_atomic [where lg = "sample_ledger Triaged" and mid = "''v2''"
          and v = "sample_vector Triaged" and now = 500
          and descr = "''Escalated to lead doctor''"]
  by (simp add: sample_ledger_def sample_vector_def escalation_role_def)

subsection \<open>Overrides learned from corrections\<close>

lemma record_all_lookup:
  "record_all ov cs k = (case map_of (rev cs) k of None \<Rightarrow> ov k | Some z \<Rightarrow> Some z)"
proof (induction ov cs rule: record_all.induct)
  case (1 ov)
  show ?case by simp
next
  case (2 ov d z cs)
  have "record_all ov ((d, z) # cs) k = record_all (record_override ov d z) cs k"
    by simp
  also have "\<dots> = (case map_of (rev cs) k of None \<Rightarrow> record_override ov d z k
                     | Some z' \<Rightarrow> Some z')"
    by (rule "2.IH")
  also have "\<dots> = (case map_of (rev ((d, z) # cs)) k of None \<Rightarrow> ov k | Some z' \<Rightarrow> Some z')"
    by (simp add: record_override_def map_add_def split: option.splits)
  finally show ?case .
qed

text \<open>
  Claim C5, for the override table as the specification describes it. After a correction
  has recorded the zone \<open>Z\<close> for the sender domain \<open>d\<close>, and whatever corrections \<open>cs\<close>
  follow, a message from \<open>d\<close> is classified as the zone of the last correction for \<open>d\<close>
  among \<open>cs\<close>, and as \<open>Z\<close> when there is none, whatever the trigger table and the
  reasoning fallback would give: the override does not expire, and a later correction
  for the same domain replaces it. Correcting a stored message records the override for
  that message's sender domain.
\<close>

theorem override_precedence:
  "(sender_domain m = d \<longrightarrow>
      classify_zone (record_all (record_override ov d Z) cs) rules m
        = (case map_of (rev cs) d of None \<Rightarrow> Z | Some Z' \<Rightarrow> Z'))
   \<and> (sender_domain m = d \<longrightarrow> classify_zone (record_override ov d Z) rules m = Z)
   \<and> record_override (record_override ov d Z) d Z2 = record_override ov d Z2
   \<and> (inbox_messages ib mid = Some m0 \<longrightarrow>
        (\<exists>ib'. correct ib mid Z = Inr ib'
           \<and> rule_overrides ib' = record_override (rule_overrides ib) (sender_domain m0) Z))"
  by (auto simp: classify_zone_def record_all_lookup record_override_def correct_def
      split: option.splits)

text \<open>
  The sample message's domain is corrected to LATER. A correction for another domain
  leaves the override in force; a later correction of the same domain to TODAY replaces
  it. The rest of the classifier would have answered STAT.
\<close>

theorem override_precedence_witness:
  "classify_zone
     (record_all (record_override Map.empty ''clinic.example'' LATER) [(''cvs.com'', TODAY)])
     (\<lambda>_. STAT) (sample_message STAT) = LATER
   \<and> classify_zone
     (record_all (record_override Map.empty ''clinic.example'' LATER)
        [(''cvs.com'', TODAY), (''clinic.example'', TODAY)])
     (\<lambda>_. STAT) (sample_message STAT) = TODAY"
  using override_precedence [where m = "sample_message STAT" and d = "''clinic.example''"
          and ov = Map.empty and Z = LATER and cs = "[(''cvs.com'', TODAY)]"
          and rules = "\<lambda>_. STAT"]
    override_precedence [where m = "sample_message STAT" and d = "''clinic.example''"
          and ov = Map.empty and Z = LATER
          and cs = "[(''cvs.com'', TODAY), (''clinic.example'', TODAY)]"
          and rules = "\<lambda>_. STAT"]
  by (simp add: sample_message_def)

end
